theory Spec2Isabelle
  imports Main
begin

section \<open>JavaScript strings\<close>

text \<open>
  A JavaScript string is a sequence of UTF-16 code units. A \<^typ>\<open>char\<close> stands for a
  code unit below 256 (the Latin-1 range), so \<open>CHR 0xE9\<close> is the precomposed letter
  e-acute and \<open>CHR 0xA0\<close> the no-break space. The white space of \<open>String.prototype.trim\<close>
  and of the regular expression class \<open>\s\<close> is the same set; in this range it is
  TAB, LF, VT, FF, CR, SPACE and NBSP.
\<close>

definition isWhiteSpace :: "char \<Rightarrow> bool" where
  "isWhiteSpace c = (of_char c \<in> {9, 10, 11, 12, 13, 32, 160 :: nat})"

definition trim :: "string \<Rightarrow> string" where
  "trim s = rev (dropWhile isWhiteSpace (rev (dropWhile isWhiteSpace s)))"

text \<open>
  \<open>String.prototype.toLowerCase\<close> on code units below 256: the ASCII capitals and the
  Latin-1 capitals (0xC0 to 0xDE without the multiplication sign 0xD7) move up by 32.
\<close>

definition toLowerChar :: "char \<Rightarrow> char" where
  "toLowerChar c = (let n = (of_char c :: nat) in
     if (65 \<le> n \<and> n \<le> 90) \<or> (192 \<le> n \<and> n \<le> 222 \<and> n \<noteq> 215)
     then char_of (n + 32) else c)"

definition toLowerCase :: "string \<Rightarrow> string" where
  "toLowerCase s = map toLowerChar s"

text \<open>
  Matching under the flag \<open>i\<close> (without \<open>u\<close>) compares canonicalised code units:
  the upper-case form, except that a code unit from 128 on never canonicalises to one
  below 128. Every pattern of this program is made of ASCII characters, so two code units
  are compared after the ASCII small letters have been moved to capitals.
\<close>

definition canonicalize :: "char \<Rightarrow> char" where
  "canonicalize c = (let n = (of_char c :: nat) in
     if 97 \<le> n \<and> n \<le> 122 then char_of (n - 32) else c)"

definition startsWithCI :: "string \<Rightarrow> string \<Rightarrow> bool" where
  "startsWithCI w s = (map canonicalize (take (length w) s) = map canonicalize w)"

definition endsWithCI :: "string \<Rightarrow> string \<Rightarrow> bool" where
  "endsWithCI w s = (length w \<le> length s \<and>
     map canonicalize (drop (length s - length w) s) = map canonicalize w)"

text \<open>\<open>s.split(',')\<close>: the pieces between the commas, the empty string giving one empty piece.\<close>

fun split :: "string \<Rightarrow> string list" where
  "split [] = [[]]"
| "split (c # cs) =
     (if c = CHR '','' then [] # split cs
      else (case split cs of [] \<Rightarrow> [[c]] | w # ws \<Rightarrow> (c # w) # ws))"

text \<open>\<open>Number.prototype.toString\<close> at an integer value: decimal digits, a minus sign first.\<close>

fun digits :: "nat \<Rightarrow> string" where
  "digits n = (if n < 10 then [char_of (48 + n)]
     else digits (n div 10) @ [char_of (48 + n mod 10)])"

definition numberToString :: "int \<Rightarrow> string" where
  "numberToString n = (if n < 0 then CHR ''-'' # digits (nat (- n)) else digits (nat n))"

section \<open>The row matrix\<close>

text \<open>
  \<open>XLSX.utils.sheet_to_json(worksheet, {header: 1})\<close> returns an array of rows, each row
  an array of cell values: a string, a number, a boolean, or nothing (a hole of the sparse
  array, \<open>undefined\<close> or \<open>null\<close>). Every row is an array, so the guard \<open>!row\<close> of the loop
  is never true and a row is a list of cells. Numeric cells are taken at integer values.
  Reading a row beyond its length gives \<open>undefined\<close>.
\<close>

datatype cell = Text string | Number int | Bool bool | Missing

type_synonym row = "cell list"

definition cellAt :: "row \<Rightarrow> nat \<Rightarrow> cell" where
  "cellAt row i = (if i < length row then row ! i else Missing)"

text \<open>JavaScript truthiness of a cell value, and of an optional string.\<close>

fun truthy :: "cell \<Rightarrow> bool" where
  "truthy (Text s) = (s \<noteq> [])"
| "truthy (Number n) = (n \<noteq> 0)"
| "truthy (Bool b) = b"
| "truthy Missing = False"

fun truthyStr :: "string option \<Rightarrow> bool" where
  "truthyStr None = False"
| "truthyStr (Some s) = (s \<noteq> [])"

text \<open>\<open>cell?.toString()\<close>: \<open>undefined\<close> for a missing cell.\<close>

fun toString :: "cell \<Rightarrow> string option" where
  "toString (Text s) = Some s"
| "toString (Number n) = Some (numberToString n)"
| "toString (Bool b) = Some (if b then ''true'' else ''false'')"
| "toString Missing = None"

section \<open>The quiz document\<close>

record question =
  question_number :: nat
  question_text :: string
  answer :: string
  accept :: "string list option"

record player =
  player_number :: nat
  questions :: "question list"

record round =
  round_number :: nat
  round_name :: string
  players :: "player list"

record metadata =
  title :: string
  source :: string
  date :: string
  md_rounds :: nat

record quiz =
  metadata :: metadata
  rounds :: "round list"

section \<open>convertExcelToQuiz\<close>

text \<open>The header test \<open>/^(question|answer|q|a)/i.test(cell.trim())\<close> on a string cell.\<close>

definition headerPattern :: "string \<Rightarrow> bool" where
  "headerPattern s = list_ex (\<lambda>w. startsWithCI w s) [''question'', ''answer'', ''q'', ''a'']"

definition hasHeaders :: "row \<Rightarrow> bool" where
  "hasHeaders firstRow =
     list_ex (\<lambda>cell. case cell of Text s \<Rightarrow> headerPattern (trim s) | _ \<Rightarrow> False) firstRow"

definition startIndex :: "row list \<Rightarrow> nat" where
  "startIndex data =
     (case data of [] \<Rightarrow> 0 | firstRow # _ \<Rightarrow> if hasHeaders firstRow then 1 else 0)"

text \<open>
  Column C: \<open>row[2].toString().split(',').map(alt => alt.trim()).filter(alt => alt.length > 0)\<close>,
  read only under the guard \<open>if (row[2])\<close>; the field is set only when a piece is left.
\<close>

definition alternativesOf :: "string \<Rightarrow> string list" where
  "alternativesOf s = filter (\<lambda>alt. length alt > 0) (map trim (split s))"

definition acceptOf :: "cell \<Rightarrow> string list option" where
  "acceptOf c =
     (if truthy c then
        (case toString c of
           None \<Rightarrow> None
         | Some s \<Rightarrow>
             (let alternatives = alternativesOf s
              in if length alternatives > 0 then Some alternatives else None))
      else None)"

text \<open>\<open>cell?.toString().trim()\<close>.\<close>

definition stringifyTrim :: "cell \<Rightarrow> string option" where
  "stringifyTrim c = map_option trim (toString c)"

text \<open>One turn of the loop: the two \<open>continue\<close> guards, then the push.\<close>

definition processRow :: "row \<Rightarrow> question list \<Rightarrow> question list" where
  "processRow row qs =
     (if length row = 0 \<or> (\<not> truthy (cellAt row 0) \<and> \<not> truthy (cellAt row 1)) then qs
      else
        (let questionText = stringifyTrim (cellAt row 0);
             answerText = stringifyTrim (cellAt row 1)
         in if \<not> truthyStr questionText \<or> \<not> truthyStr answerText then qs
            else
              (case (questionText, answerText) of
                 (Some q, Some a) \<Rightarrow>
                   qs @ [\<lparr>question_number = length qs + 1, question_text = q,
                          answer = a, accept = acceptOf (cellAt row 2)\<rparr>]
               | _ \<Rightarrow> qs)))"

fun convertRows :: "row list \<Rightarrow> question list \<Rightarrow> question list" where
  "convertRows [] qs = qs"
| "convertRows (row # rest) qs = convertRows rest (processRow row qs)"

text \<open>
  The two readings of the clock, each cut to its date part, are the parameters
  \<open>sourceDay\<close> and \<open>day\<close>.
\<close>

definition convertExcelToQuiz :: "row list \<Rightarrow> string \<Rightarrow> string \<Rightarrow> string \<Rightarrow> quiz" where
  "convertExcelToQuiz data ttl sourceDay day =
     \<lparr>metadata = \<lparr>title = ttl, source = ''excel_upload_'' @ sourceDay, date = day, md_rounds = 1\<rparr>,
      rounds = [\<lparr>round_number = 1, round_name = ttl,
                 players = [\<lparr>player_number = 1,
                             questions = convertRows (drop (startIndex data) data) []\<rparr>]\<rparr>]\<rparr>"

text \<open>All questions of a document in order, round by round and player by player.\<close>

definition allQuestions :: "quiz \<Rightarrow> question list" where
  "allQuestions q = concat (map (\<lambda>r. concat (map questions (players r))) (rounds q))"

text \<open>
  What the loop does with a row: it is left out by one of the two \<open>continue\<close> guards, the
  first of which tests the raw cells for truthiness.
\<close>

definition rowSkipped :: "row \<Rightarrow> bool" where
  "rowSkipped row =
     (length row = 0 \<or> (\<not> truthy (cellAt row 0) \<and> \<not> truthy (cellAt row 1))
      \<or> \<not> truthyStr (stringifyTrim (cellAt row 0))
      \<or> \<not> truthyStr (stringifyTrim (cellAt row 1)))"

text \<open>A cell that is absent, or empty once stringified and trimmed.\<close>

definition blankCell :: "cell \<Rightarrow> bool" where
  "blankCell c = (case stringifyTrim c of None \<Rightarrow> True | Some s \<Rightarrow> s = [])"

text \<open>
  A valid row in the words of the specification: its column-A and column-B cells are both
  present and non-empty once stringified and trimmed.
\<close>

definition validRow :: "row \<Rightarrow> bool" where
  "validRow row = (\<not> blankCell (cellAt row 0) \<and> \<not> blankCell (cellAt row 1))"

section \<open>saveQuizToRepo\<close>

text \<open>A thrown \<open>Error\<close> with its message.\<close>

datatype error = Error string

text \<open>\<open>a || b\<close> on optional strings, and \<open>a || 'literal'\<close>.\<close>

definition orElse :: "string option \<Rightarrow> string option \<Rightarrow> string option" where
  "orElse a b = (if truthyStr a then a else b)"

definition orDefault :: "string option \<Rightarrow> string \<Rightarrow> string" where
  "orDefault a d = (case a of None \<Rightarrow> d | Some s \<Rightarrow> if s \<noteq> [] then s else d)"

record env =
  GITHUB_TOKEN :: "string option"
  GITHUB_OWNER :: "string option"
  VERCEL_GIT_REPO_OWNER :: "string option"
  GITHUB_REPO :: "string option"
  VERCEL_GIT_REPO_SLUG :: "string option"
  GITHUB_BRANCH :: "string option"

subsection \<open>The file name\<close>

text \<open>The class \<open>[a-z0-9\s-]\<close> under the flag \<open>i\<close>; \<open>replace(/[^a-z0-9\s-]/gi, '')\<close> keeps it.\<close>

definition keptChar :: "char \<Rightarrow> bool" where
  "keptChar c = (let n = (of_char c :: nat) in
     (97 \<le> n \<and> n \<le> 122) \<or> (65 \<le> n \<and> n \<le> 90) \<or> (48 \<le> n \<and> n \<le> 57)
     \<or> isWhiteSpace c \<or> c = CHR ''-'')"

text \<open>\<open>replace(/\s+/g, '-')\<close>: every maximal run of white space becomes one hyphen.\<close>

function replaceWhitespaceRuns :: "string \<Rightarrow> string" where
  "replaceWhitespaceRuns [] = []"
| "replaceWhitespaceRuns (c # cs) =
     (if isWhiteSpace c then CHR ''-'' # replaceWhitespaceRuns (dropWhile isWhiteSpace cs)
      else c # replaceWhitespaceRuns cs)"
  by pat_completeness auto
termination
  by (relation "measure length") (auto simp: length_dropWhile_le less_Suc_eq_le)

definition deriveFilename :: "string \<Rightarrow> string" where
  "deriveFilename quizTitle = toLowerCase (replaceWhitespaceRuns (filter keptChar quizTitle))"

definition quizPathOf :: "string \<Rightarrow> string" where
  "quizPathOf quizTitle = ''public/data/quizzes/'' @ deriveFilename quizTitle @ ''.json''"

subsection \<open>The quiz index\<close>

record index_entry =
  name :: string
  file' :: string
  description :: string

definition totalQuestions :: "quiz \<Rightarrow> nat" where
  "totalQuestions quizData =
     foldl (\<lambda>total round.
        total + foldl (\<lambda>roundTotal player. roundTotal + length (questions player)) 0 (players round))
       0 (rounds quizData)"

text \<open>\<open>Array.prototype.findIndex\<close>: the first position that satisfies the test, or -1.\<close>

fun findIndexFrom :: "('a \<Rightarrow> bool) \<Rightarrow> 'a list \<Rightarrow> nat \<Rightarrow> int" where
  "findIndexFrom P [] k = - 1"
| "findIndexFrom P (x # xs) k = (if P x then int k else findIndexFrom P xs (Suc k))"

definition findIndex :: "('a \<Rightarrow> bool) \<Rightarrow> 'a list \<Rightarrow> int" where
  "findIndex P xs = findIndexFrom P xs 0"

definition newEntryOf :: "quiz \<Rightarrow> string \<Rightarrow> index_entry" where
  "newEntryOf quizData quizTitle =
     \<lparr>name = quizTitle,
      file' = ''/data/quizzes/'' @ deriveFilename quizTitle @ ''.json'',
      description = ''1 round, '' @ digits (totalQuestions quizData) @ '' questions''\<rparr>"

definition updateIndex :: "index_entry list \<Rightarrow> quiz \<Rightarrow> string \<Rightarrow> index_entry list" where
  "updateIndex quizzes quizData quizTitle =
     (let existingIndex =
            findIndex (\<lambda>q. file' q = ''/data/quizzes/'' @ deriveFilename quizTitle @ ''.json'') quizzes;
          newEntry = newEntryOf quizData quizTitle
      in if existingIndex \<ge> 0 then quizzes[nat existingIndex := newEntry]
         else quizzes @ [newEntry])"

subsection \<open>The remote store\<close>

text \<open>
  The calls of the Octokit client with their arguments, and the store as the answers it
  gives: \<open>Inl\<close> is a rejected promise. \<open>getRef\<close> answers \<open>data.object.sha\<close>,
  \<open>getCommit\<close> answers \<open>data.tree.sha\<close>, the others the \<open>sha\<close> of what they made.
  \<open>getContent\<close> stands for the request with the decoding and \<open>JSON.parse\<close> that follow it
  inside the same \<open>try\<close>: \<open>Inr None\<close> is a parsed value without a \<open>quizzes\<close> array.
  The content of a blob is the document that \<open>JSON.stringify\<close> was given.
\<close>

datatype content = QuizJson quiz | IndexJson "index_entry list"

datatype call =
    GetRef string string string
  | GetCommit string string string
  | GetContent string string string string
  | CreateBlob string string content
  | CreateTree string string string "(string \<times> string) list"
  | CreateCommit string string string string "string list"
  | UpdateRef string string string string

record remote =
  getRef :: "string \<Rightarrow> string \<Rightarrow> string \<Rightarrow> error + string"
  getCommit :: "string \<Rightarrow> string \<Rightarrow> string \<Rightarrow> error + string"
  getContent :: "string \<Rightarrow> string \<Rightarrow> string \<Rightarrow> string \<Rightarrow> error + index_entry list option"
  createBlob :: "string \<Rightarrow> string \<Rightarrow> content \<Rightarrow> error + string"
  createTree :: "string \<Rightarrow> string \<Rightarrow> string \<Rightarrow> (string \<times> string) list \<Rightarrow> error + string"
  createCommit :: "string \<Rightarrow> string \<Rightarrow> string \<Rightarrow> string \<Rightarrow> string list \<Rightarrow> error + string"
  updateRef :: "string \<Rightarrow> string \<Rightarrow> string \<Rightarrow> string \<Rightarrow> error + unit"

text \<open>A computation gives the remote calls it made, in order, and its result or its error.\<close>

type_synonym 'a io = "call list \<times> (error + 'a)"

definition remoteCall :: "call \<Rightarrow> error + 'a \<Rightarrow> 'a io" where
  "remoteCall c r = ([c], r)"

definition andThen :: "'a io \<Rightarrow> ('a \<Rightarrow> 'b io) \<Rightarrow> 'b io" where
  "andThen m f =
     (case m of
        (calls, Inl e) \<Rightarrow> (calls, Inl e)
      | (calls, Inr x) \<Rightarrow> (case f x of (calls', r) \<Rightarrow> (calls @ calls', r)))"

text \<open>The \<open>try\<close> around the index: any failure gives the empty index.\<close>

definition loadIndex :: "remote \<Rightarrow> string \<Rightarrow> string \<Rightarrow> string \<Rightarrow> (index_entry list option) io" where
  "loadIndex remote owner repo branch =
     ([GetContent owner repo ''public/data/quiz-index.json'' branch],
      case getContent remote owner repo ''public/data/quiz-index.json'' branch of
        Inl e \<Rightarrow> Inr (Some [])
      | Inr quizIndex \<Rightarrow> Inr quizIndex)"

text \<open>\<open>Promise.all\<close> of the two blobs: both requests are sent; one rejection rejects the pair.\<close>

definition createBlobs :: "remote \<Rightarrow> string \<Rightarrow> string \<Rightarrow> quiz \<Rightarrow> index_entry list \<Rightarrow> (string \<times> string) io" where
  "createBlobs remote owner repo quizData quizzes =
     ([CreateBlob owner repo (QuizJson quizData), CreateBlob owner repo (IndexJson quizzes)],
      case (createBlob remote owner repo (QuizJson quizData),
            createBlob remote owner repo (IndexJson quizzes)) of
        (Inr quizBlob, Inr indexBlob) \<Rightarrow> Inr (quizBlob, indexBlob)
      | (Inl e, _) \<Rightarrow> Inl e
      | (_, Inl e) \<Rightarrow> Inl e)"

record save_result =
  quizPath :: string
  commitSha :: string
  quizUrl :: string

text \<open>The sequence of remote calls, once owner and repository are known.\<close>

definition publish :: "remote \<Rightarrow> string \<Rightarrow> string \<Rightarrow> string \<Rightarrow> quiz \<Rightarrow> string \<Rightarrow> save_result io" where
  "publish remote owner repo branch quizData quizTitle =
     andThen (remoteCall (GetRef owner repo (''heads/'' @ branch))
                (getRef remote owner repo (''heads/'' @ branch))) (\<lambda>currentCommitSha.
     andThen (remoteCall (GetCommit owner repo currentCommitSha)
                (getCommit remote owner repo currentCommitSha)) (\<lambda>currentTreeSha.
     andThen (loadIndex remote owner repo branch) (\<lambda>quizIndex.
     (case quizIndex of
        None \<Rightarrow> ([], Inl (Error ''TypeError''))
      | Some quizzes \<Rightarrow>
     andThen (createBlobs remote owner repo quizData (updateIndex quizzes quizData quizTitle))
       (\<lambda>(quizBlob, indexBlob).
     andThen (remoteCall
                (CreateTree owner repo currentTreeSha
                   [(quizPathOf quizTitle, quizBlob), (''public/data/quiz-index.json'', indexBlob)])
                (createTree remote owner repo currentTreeSha
                   [(quizPathOf quizTitle, quizBlob), (''public/data/quiz-index.json'', indexBlob)]))
       (\<lambda>newTree.
     andThen (remoteCall
                (CreateCommit owner repo (''Add quiz: '' @ quizTitle) newTree [currentCommitSha])
                (createCommit remote owner repo (''Add quiz: '' @ quizTitle) newTree [currentCommitSha]))
       (\<lambda>newCommit.
     andThen (remoteCall (UpdateRef owner repo (''heads/'' @ branch) newCommit)
                (updateRef remote owner repo (''heads/'' @ branch) newCommit)) (\<lambda>_.
       ([], Inr \<lparr>quizPath = quizPathOf quizTitle, commitSha = newCommit,
                 quizUrl = ''/data/quizzes/'' @ deriveFilename quizTitle @ ''.json''\<rparr>)))))))))"

definition notConfigured :: error where
  "notConfigured = Error
     ''GitHub repository not configured. Set GITHUB_OWNER and GITHUB_REPO environment variables.''"

definition repoOwner :: "env \<Rightarrow> string option" where
  "repoOwner env = orElse (GITHUB_OWNER env) (VERCEL_GIT_REPO_OWNER env)"

definition repoName :: "env \<Rightarrow> string option" where
  "repoName env = orElse (GITHUB_REPO env) (VERCEL_GIT_REPO_SLUG env)"

definition saveQuizToRepo :: "env \<Rightarrow> remote \<Rightarrow> quiz \<Rightarrow> string \<Rightarrow> save_result io" where
  "saveQuizToRepo env remote quizData quizTitle =
     (let owner = repoOwner env;
          repo = repoName env;
          branch = orDefault (GITHUB_BRANCH env) ''main''
      in if \<not> truthyStr owner \<or> \<not> truthyStr repo then ([], Inl notConfigured)
         else
           (case (owner, repo) of
              (Some owner, Some repo) \<Rightarrow> publish remote owner repo branch quizData quizTitle
            | _ \<Rightarrow> ([], Inl notConfigured)))"

section \<open>The upload handler\<close>

text \<open>
  \<open>form.parse(req)\<close> gives the fields and the files, or throws; \<open>fields.title\<close> and
  \<open>files.file\<close> are arrays when the part is there. Reading the workbook and its first sheet
  (\<open>XLSX.readFile\<close>, \<open>sheet_to_json\<close>) is the parameter \<open>readRows\<close>, from the path of the
  upload to the row matrix, or to the error thrown.
\<close>

record upload_file =
  filepath :: string
  originalFilename :: "string option"

record form =
  fields_title :: "string list option"
  files_file :: "upload_file list option"

record request =
  req_method :: string
  multipart :: "error + form"

text \<open>\<open>originalFilename.replace(/\.(xlsx?|csv)$/i, '')\<close>: the first position from the left
  where the rest of the name is one of the three extensions; the rest is removed there.\<close>

definition extensionHere :: "string \<Rightarrow> bool" where
  "extensionHere s = (map canonicalize s \<in> set [''.XLSX'', ''.XLS'', ''.CSV''])"

fun stripExtension :: "string \<Rightarrow> string" where
  "stripExtension [] = []"
| "stripExtension (c # cs) = (if extensionHere (c # cs) then [] else c # stripExtension cs)"

text \<open>\<open>xs?.[0]\<close> on an optional array.\<close>

fun firstOf :: "'a list option \<Rightarrow> 'a option" where
  "firstOf None = None"
| "firstOf (Some []) = None"
| "firstOf (Some (x # xs)) = Some x"

definition quizTitleOf :: "string list option \<Rightarrow> string option \<Rightarrow> string" where
  "quizTitleOf titles originalName =
     orDefault (orElse (firstOf titles) (map_option stripExtension originalName)) ''Untitled Quiz''"

record upload_body =
  success :: bool
  quiz :: quiz
  saved :: bool
  quizPath' :: "string option"
  message :: string

datatype body = ErrorBody string "string option" | UploadBody upload_body

datatype response = Response nat body

fun errorMessage :: "error \<Rightarrow> string" where
  "errorMessage (Error m) = m"

definition failed :: "error \<Rightarrow> response" where
  "failed e = Response 500 (ErrorBody ''Failed to process Excel file'' (Some (errorMessage e)))"

definition handler ::
  "request \<Rightarrow> env \<Rightarrow> (string \<Rightarrow> error + row list) \<Rightarrow> remote \<Rightarrow> string \<Rightarrow> string
     \<Rightarrow> call list \<times> response" where
  "handler req env readRows remote sourceDay day =
     (if req_method req \<noteq> ''POST'' then ([], Response 405 (ErrorBody ''Method not allowed'' None))
      else
        (case multipart req of
           Inl e \<Rightarrow> ([], failed e)
         | Inr parsed \<Rightarrow>
             (case firstOf (files_file parsed) of
                None \<Rightarrow> ([], Response 400 (ErrorBody ''No file uploaded'' None))
              | Some uploadedFile \<Rightarrow>
                  (case readRows (filepath uploadedFile) of
                     Inl e \<Rightarrow> ([], failed e)
                   | Inr data \<Rightarrow>
                       (let quizTitle =
                              quizTitleOf (fields_title parsed) (originalFilename uploadedFile);
                            quizData = convertExcelToQuiz data quizTitle sourceDay day
                        in if truthyStr (GITHUB_TOKEN env) then
                             (case saveQuizToRepo env remote quizData quizTitle of
                                (calls, Inr saveResult) \<Rightarrow>
                                  (calls, Response 200 (UploadBody
                                     \<lparr>success = True, quiz = quizData, saved = True,
                                      quizPath' = Some (quizPath saveResult),
                                      message = ''Quiz saved to repository successfully''\<rparr>))
                              | (calls, Inl saveError) \<Rightarrow>
                                  (calls, Response 200 (UploadBody
                                     \<lparr>success = True, quiz = quizData, saved = False,
                                      quizPath' = None,
                                      message =
                                        ''Quiz parsed successfully (download to save manually)''\<rparr>)))
                           else
                             ([], Response 200 (UploadBody
                                \<lparr>success = True, quiz = quizData, saved = False,
                                 quizPath' = None,
                                 message =
                                   ''Quiz parsed successfully (download to save manually)''\<rparr>)))))))"

section \<open>Auxiliary notions\<close>

text \<open>The code units a derived file name is made of: small ASCII letters, digits, hyphen.\<close>

definition plainChar :: "char \<Rightarrow> bool" where
  "plainChar c = (let n = (of_char c :: nat) in
     (97 \<le> n \<and> n \<le> 122) \<or> (48 \<le> n \<and> n \<le> 57) \<or> c = CHR ''-'')"

text \<open>The three extensions of \<open>/\.(xlsx?|csv)$/i\<close>.\<close>

definition extensions :: "string list" where
  "extensions = [''.xlsx'', ''.xls'', ''.csv'']"

text \<open>
  A store that fulfils every request, and whose index file, when it can be read, parses to
  a document with a \<open>quizzes\<close> array.
\<close>

definition accepted :: "error + 'a \<Rightarrow> bool" where
  "accepted r = (case r of Inl e \<Rightarrow> False | Inr x \<Rightarrow> True)"

definition accepting :: "remote \<Rightarrow> bool" where
  "accepting remote =
     ((\<forall>owner repo ref. accepted (getRef remote owner repo ref))
      \<and> (\<forall>owner repo sha. accepted (getCommit remote owner repo sha))
      \<and> (\<forall>owner repo path ref. getContent remote owner repo path ref \<noteq> Inr None)
      \<and> (\<forall>owner repo c. accepted (createBlob remote owner repo c))
      \<and> (\<forall>owner repo base entries. accepted (createTree remote owner repo base entries))
      \<and> (\<forall>owner repo msg tree parents.
            accepted (createCommit remote owner repo msg tree parents))
      \<and> (\<forall>owner repo ref sha. accepted (updateRef remote owner repo ref sha)))"

subsection \<open>Concrete inputs\<close>

definition okRemote :: remote where
  "okRemote =
     \<lparr>getRef = (\<lambda>owner repo ref. Inr ''c0''),
      getCommit = (\<lambda>owner repo sha. Inr ''t0''),
      getContent = (\<lambda>owner repo path ref. Inl (Error ''Not Found'')),
      createBlob = (\<lambda>owner repo c. case c of QuizJson q \<Rightarrow> Inr ''b1'' | IndexJson i \<Rightarrow> Inr ''b2''),
      createTree = (\<lambda>owner repo base entries. Inr ''t1''),
      createCommit = (\<lambda>owner repo msg tree parents. Inr ''c1''),
      updateRef = (\<lambda>owner repo ref sha. Inr ())\<rparr>"

text \<open>The same store, refusing the last step, the update of the branch.\<close>

definition conflictRemote :: remote where
  "conflictRemote = okRemote\<lparr>updateRef := (\<lambda>owner repo ref sha. Inl (Error ''Conflict''))\<rparr>"

definition someEnv :: env where
  "someEnv =
     \<lparr>GITHUB_TOKEN = Some ''token'', GITHUB_OWNER = None,
      VERCEL_GIT_REPO_OWNER = Some ''pravinva'', GITHUB_REPO = Some ''buzzerquiz'',
      VERCEL_GIT_REPO_SLUG = None, GITHUB_BRANCH = None\<rparr>"

definition someRequest :: request where
  "someRequest =
     \<lparr>req_method = ''POST'',
      multipart = Inr \<lparr>fields_title = Some [''Demo''],
                       files_file = Some [\<lparr>filepath = ''/tmp/upload'',
                                            originalFilename = Some ''demo.xlsx''\<rparr>]\<rparr>\<rparr>"

definition someRows :: "row list" where
  "someRows = [[Text ''Question'', Text ''Answer''], [Text ''2+2?'', Number 4]]"

definition someIndex :: "index_entry list" where
  "someIndex =
     [\<lparr>name = ''Capitals'', file' = ''/data/quizzes/capitals.json'',
       description = ''1 round, 3 questions''\<rparr>,
      \<lparr>name = ''Old demo'', file' = ''/data/quizzes/demo.json'',
       description = ''1 round, 9 questions''\<rparr>,
      \<lparr>name = ''Rivers'', file' = ''/data/quizzes/rivers.json'',
       description = ''1 round, 5 questions''\<rparr>]"

section \<open>Evaluation on concrete inputs\<close>

lemma eq_char_of_iff: "(c = char_of (n::nat)) = (take_bit 8 n = of_char c)"
  using char_of_eq_iff [of n c] by auto

lemmas evals =
  isWhiteSpace_def trim_def toLowerChar_def toLowerCase_def canonicalize_def startsWithCI_def
  endsWithCI_def numberToString_def cellAt_def headerPattern_def hasHeaders_def startIndex_def
  alternativesOf_def acceptOf_def stringifyTrim_def processRow_def convertExcelToQuiz_def
  allQuestions_def rowSkipped_def blankCell_def char_of_eq_iff eq_char_of_iff Let_def
  keptChar_def deriveFilename_def quizPathOf_def newEntryOf_def extensionHere_def

section \<open>The loop of the converter\<close>

lemma truthyStr_Some: "truthyStr x \<Longrightarrow> \<exists>y. x = Some y \<and> y \<noteq> []"
  by (cases x) auto

lemma processRow_skip: "rowSkipped row \<Longrightarrow> processRow row qs = qs"
  by (auto simp: processRow_def rowSkipped_def Let_def split: option.splits)

lemma processRow_keep:
  "\<not> rowSkipped row \<Longrightarrow>
   \<exists>q. processRow row qs = qs @ [q] \<and> question_number q = length qs + 1"
  by (auto simp: processRow_def rowSkipped_def Let_def split: option.splits
      dest: truthyStr_Some)

lemma blank_skipped:
  "blankCell (cellAt row 0) \<or> blankCell (cellAt row 1) \<Longrightarrow> rowSkipped row"
  by (auto simp: blankCell_def rowSkipped_def split: option.splits)

lemma convertRows_filter_blank:
  "convertRows (filter (\<lambda>r. \<not> (blankCell (cellAt r 0) \<or> blankCell (cellAt r 1))) rows) qs
   = convertRows rows qs"
  by (induction rows arbitrary: qs) (auto simp: processRow_skip blank_skipped)

lemma convertRows_length:
  "length (convertRows rows qs) = length qs + length (filter (\<lambda>r. \<not> rowSkipped r) rows)"
proof (induction rows arbitrary: qs)
  case Nil
  then show ?case by simp
next
  case (Cons r rows)
  show ?case
  proof (cases "rowSkipped r")
    case True
    then show ?thesis using Cons by (simp add: processRow_skip)
  next
    case False
    then obtain q where "processRow r qs = qs @ [q]"
      using processRow_keep by blast
    then show ?thesis using Cons False by simp
  qed
qed

lemma convertRows_numbers:
  "map question_number qs = [1..<Suc (length qs)] \<Longrightarrow>
   map question_number (convertRows rows qs) = [1..<Suc (length (convertRows rows qs))]"
proof (induction rows arbitrary: qs)
  case Nil
  then show ?case by simp
next
  case (Cons r rows)
  show ?case
  proof (cases "rowSkipped r")
    case True
    then show ?thesis using Cons by (simp add: processRow_skip)
  next
    case False
    then obtain q where q: "processRow r qs = qs @ [q]" "question_number q = length qs + 1"
      using processRow_keep by blast
    have "map question_number (qs @ [q]) = [1..<Suc (length (qs @ [q]))]"
      using Cons.prems q by simp
    then show ?thesis using Cons.IH q by simp
  qed
qed

lemma allQuestions_convert:
  "allQuestions (convertExcelToQuiz data ttl d1 d2) = convertRows (drop (startIndex data) data) []"
  by (simp add: allQuestions_def convertExcelToQuiz_def)

text \<open>
  Claim C1. A row whose column-A or column-B cell is absent, or empty once stringified and
  trimmed, leaves the question list as it was: the converter's questions are those of the
  data rows with all such rows taken out. The question numbers of the output are
  1, 2, ..., up to the number of questions, whatever rows were skipped.
\<close>

theorem C1_blank_rows_skipped_numbers_dense:
  "(\<forall>row qs. blankCell (cellAt row 0) \<or> blankCell (cellAt row 1) \<longrightarrow> processRow row qs = qs)
   \<and> allQuestions (convertExcelToQuiz data ttl sourceDay day) =
       convertRows (filter (\<lambda>row. \<not> (blankCell (cellAt row 0) \<or> blankCell (cellAt row 1)))
                      (drop (startIndex data) data)) []
   \<and> map question_number (allQuestions (convertExcelToQuiz data ttl sourceDay day)) =
       [1..<Suc (length (allQuestions (convertExcelToQuiz data ttl sourceDay day)))]"
proof (intro conjI allI impI)
  fix row qs
  assume "blankCell (cellAt row 0) \<or> blankCell (cellAt row 1)"
  then show "processRow row qs = qs"
    by (simp add: blank_skipped processRow_skip)
next
  show "allQuestions (convertExcelToQuiz data ttl sourceDay day) =
       convertRows (filter (\<lambda>row. \<not> (blankCell (cellAt row 0) \<or> blankCell (cellAt row 1)))
                      (drop (startIndex data) data)) []"
    by (simp only: allQuestions_convert convertRows_filter_blank)
next
  have "map question_number ([] :: question list) = [1..<Suc (length ([] :: question list))]"
    by simp
  then show "map question_number (allQuestions (convertExcelToQuiz data ttl sourceDay day)) =
       [1..<Suc (length (allQuestions (convertExcelToQuiz data ttl sourceDay day)))]"
    unfolding allQuestions_convert by (rule convertRows_numbers)
qed

theorem C1_witness:
  "blankCell (cellAt [Text '' '', Text ''x''] 0)
   \<and> processRow [Text '' '', Text ''x''] [] = []
   \<and> map question_number (allQuestions (convertExcelToQuiz
       [[Text ''Item'', Text ''Reply''], [Text ''Q1'', Text ''A1''], [Text '' '', Text ''x''],
        [Number 7, Text ''A2'', Text ''x, y'']] ''Demo'' ''2026-11-03'' ''2026-11-03''))
     = [1, 2, 3]"
proof -
  let ?data = "[[Text ''Item'', Text ''Reply''], [Text ''Q1'', Text ''A1''],
        [Text '' '', Text ''x''], [Number 7, Text ''A2'', Text ''x, y'']]"
  let ?qs = "allQuestions (convertExcelToQuiz ?data ''Demo'' ''2026-11-03'' ''2026-11-03'')"
  note main = C1_blank_rows_skipped_numbers_dense
    [of ?data "''Demo''" "''2026-11-03''" "''2026-11-03''"]
  have blank: "blankCell (cellAt [Text '' '', Text ''x''] 0)"
    by (simp add: blankCell_def cellAt_def stringifyTrim_def trim_def isWhiteSpace_def)
  from main blank have skip: "processRow [Text '' '', Text ''x''] [] = []"
    by blast
  have len: "length ?qs = 3"
    by (simp add: evals)
  from main have "map question_number ?qs = [1..<Suc (length ?qs)]"
    by blast
  then have "map question_number ?qs = [1, 2, 3]"
    unfolding len by (simp add: upt_rec)
  with blank skip show ?thesis by blast
qed

section \<open>Header detection\<close>

lemma hasHeaders_iff:
  "hasHeaders firstRow \<longleftrightarrow> (\<exists>cell\<in>set firstRow. \<exists>s. cell = Text s \<and> headerPattern (trim s))"
proof -
  have "\<And>cell. (case cell of Text s \<Rightarrow> headerPattern (trim s) | _ \<Rightarrow> False)
      \<longleftrightarrow> (\<exists>s. cell = Text s \<and> headerPattern (trim s))"
    subgoal for cell by (cases cell) auto
    done
  then show ?thesis by (simp add: hasHeaders_def list_ex_iff)
qed

text \<open>
  Claim C2. For a row matrix that is not empty, the data start at row 1 exactly when some cell
  of row 0 is a string whose trimmed value matches the header pattern; then the questions
  come from the rows after row 0. Otherwise the data start at row 0 and the questions come
  from all rows.
\<close>

theorem C2_header_detection:
  assumes "data \<noteq> []"
  shows "(startIndex data = 1 \<longleftrightarrow>
           (\<exists>cell\<in>set (hd data). \<exists>s. cell = Text s \<and> headerPattern (trim s)))
       \<and> (startIndex data = 1 \<longrightarrow>
            allQuestions (convertExcelToQuiz data ttl sourceDay day) = convertRows (tl data) [])
       \<and> (startIndex data \<noteq> 1 \<longrightarrow>
            startIndex data = 0
            \<and> allQuestions (convertExcelToQuiz data ttl sourceDay day) = convertRows data [])"
proof -
  from assms obtain firstRow rest where d: "data = firstRow # rest"
    by (cases data) auto
  show ?thesis
    unfolding allQuestions_convert
    by (simp add: d startIndex_def hasHeaders_iff)
qed

theorem C2_witness:
  "[[Number 3, Text ''  Answer key''], [Text ''Q1'', Text ''A1'']] \<noteq> []
   \<and> startIndex [[Number 3, Text ''  Answer key''], [Text ''Q1'', Text ''A1'']] = 1
   \<and> allQuestions (convertExcelToQuiz [[Number 3, Text ''  Answer key''], [Text ''Q1'', Text ''A1'']]
        ''Demo'' ''2026-11-03'' ''2026-11-03'') = convertRows [[Text ''Q1'', Text ''A1'']] []
   \<and> startIndex [[Number 3, Text ''Item'']] = 0
   \<and> allQuestions (convertExcelToQuiz [[Number 3, Text ''Item'']]
        ''Demo'' ''2026-11-03'' ''2026-11-03'') = convertRows [[Number 3, Text ''Item'']] []"
proof -
  let ?h = "[[Number 3, Text ''  Answer key''], [Text ''Q1'', Text ''A1'']]"
  let ?n = "[[Number 3, Text ''Item'']]"
  have h: "?h \<noteq> []" and n: "?n \<noteq> []" by simp_all
  have hp: "\<exists>cell\<in>set (hd ?h). \<exists>s. cell = Text s \<and> headerPattern (trim s)"
    by (simp add: evals)
  have np: "\<not> (\<exists>cell\<in>set (hd ?n). \<exists>s. cell = Text s \<and> headerPattern (trim s))"
    by (simp add: evals)
  from C2_header_detection [OF h, of "''Demo''" "''2026-11-03''" "''2026-11-03''"] hp
  have 1: "startIndex ?h = 1 \<and> allQuestions (convertExcelToQuiz ?h ''Demo'' ''2026-11-03'' ''2026-11-03'') = convertRows (tl ?h) []"
    by blast
  from C2_header_detection [OF n, of "''Demo''" "''2026-11-03''" "''2026-11-03''"] np
  have 2: "startIndex ?n = 0 \<and> allQuestions (convertExcelToQuiz ?n ''Demo'' ''2026-11-03'' ''2026-11-03'') = convertRows ?n []"
    by blast
  from 1 2 show ?thesis by simp
qed

section \<open>Counting the questions\<close>

lemma totalQuestions_convert:
  "totalQuestions (convertExcelToQuiz data ttl d1 d2) = length (convertRows (drop (startIndex data) data) [])"
  by (simp add: totalQuestions_def convertExcelToQuiz_def)

lemma totalQuestions_kept:
  "totalQuestions (convertExcelToQuiz data ttl d1 d2)
   = length (filter (\<lambda>row. \<not> rowSkipped row) (drop (startIndex data) data))"
  by (simp add: totalQuestions_convert convertRows_length)

lemma kept_validRow: "\<not> rowSkipped row \<Longrightarrow> validRow row"
  using blank_skipped [of row] by (auto simp: validRow_def)

text \<open>The count never exceeds the number of valid rows; the rows it can miss are the
  valid rows whose column-A and column-B cells are both falsy.\<close>

lemma totalQuestions_le_valid:
  "totalQuestions (convertExcelToQuiz data ttl d1 d2)
   \<le> length (filter validRow (drop (startIndex data) data))"
proof -
  have "length (filter (\<lambda>row. \<not> rowSkipped row) rows) \<le> length (filter validRow rows)" for rows
    by (induction rows) (auto dest: kept_validRow)
  then show ?thesis by (simp only: totalQuestions_kept)
qed

lemma validRow_falsy_skipped:
  "rowSkipped row \<Longrightarrow> validRow row \<Longrightarrow>
   \<not> truthy (cellAt row 0) \<and> \<not> truthy (cellAt row 1)"
  by (auto simp: rowSkipped_def validRow_def blankCell_def cellAt_def split: option.splits
      dest: truthyStr_Some)

text \<open>
  Claim C6, at the matrix of the single row with the number 0 in columns A and B. Both cells
  are present and stringify to \<open>0\<close>, so the row is valid and the claim asks for a total of 1;
  the guard \<open>!row[0] && !row[1]\<close> takes both numbers for false, the row is skipped as
  empty, and the total computed from the converted document is 0.
\<close>

theorem C6_zero_row_not_counted:
  "totalQuestions (convertExcelToQuiz [[Number 0, Number 0]] ''Demo'' ''2026-11-03'' ''2026-11-03'')
     = 0
   \<and> stringifyTrim (cellAt [Number 0, Number 0] 0) = Some ''0''
   \<and> stringifyTrim (cellAt [Number 0, Number 0] 1) = Some ''0''
   \<and> length (filter validRow (drop (startIndex [[Number 0, Number 0]]) [[Number 0, Number 0]]))
     = 1"
  by (simp add: totalQuestions_def validRow_def evals)

section \<open>Alternative answers\<close>

lemma acceptOf_not_empty: "acceptOf c \<noteq> Some []"
  by (auto simp: acceptOf_def Let_def split: option.splits)

lemma acceptOf_truthy:
  "truthy c \<Longrightarrow> toString c = Some s \<Longrightarrow>
   acceptOf c = (if alternativesOf s = [] then None else Some (alternativesOf s))"
  by (simp add: acceptOf_def Let_def)


text \<open>
  Claim C3, at the row with the number 0 in column C. The cell is present, and its
  stringified value splits into the one alternative \<open>0\<close>; the guard \<open>if (row[2])\<close>
  takes the number 0 for false, and the question is emitted without an \<open>accept\<close> field.
\<close>

theorem C3_numeric_zero_alternative_dropped: 
  "convertRows [[Text ''Moons of Venus?'', Text ''none'', Number 0]] []
     = [\<lparr>question_number = 1, question_text = ''Moons of Venus?'', answer = ''none'', accept = None\<rparr>]
   \<and> map_option alternativesOf (toString (cellAt [Text ''Moons of Venus?'', Text ''none'', Number 0] 2)) = Some [''0'']"
  by (simp add: evals)

section \<open>The derived file name\<close>

lemma plainChar_fixed: "plainChar c \<Longrightarrow> keptChar c \<and> \<not> isWhiteSpace c \<and> toLowerChar c = c"
  by (auto simp: plainChar_def keptChar_def isWhiteSpace_def toLowerChar_def Let_def)

lemma toLowerChar_plain: "keptChar c \<Longrightarrow> \<not> isWhiteSpace c \<Longrightarrow> plainChar (toLowerChar c)"
  by (auto simp: plainChar_def keptChar_def toLowerChar_def Let_def take_bit_eq_mod)

lemma replaceWhitespaceRuns_set:
  "set (replaceWhitespaceRuns xs) \<subseteq> insert (CHR ''-'') {c \<in> set xs. \<not> isWhiteSpace c}"
proof (induction xs rule: replaceWhitespaceRuns.induct)
  case 1
  then show ?case by simp
next
  case (2 c cs)
  show ?case
  proof (cases "isWhiteSpace c")
    case True
    with 2 show ?thesis by (auto dest: set_dropWhileD)
  next
    case False
    with 2 show ?thesis by auto
  qed
qed

lemma replaceWhitespaceRuns_id:
  "\<forall>c\<in>set xs. \<not> isWhiteSpace c \<Longrightarrow> replaceWhitespaceRuns xs = xs"
  by (induction xs) auto

lemma deriveFilename_plain: "c \<in> set (deriveFilename t) \<Longrightarrow> plainChar c"
proof -
  assume "c \<in> set (deriveFilename t)"
  then obtain d where d: "d \<in> set (replaceWhitespaceRuns (filter keptChar t))" "c = toLowerChar d"
    by (auto simp: deriveFilename_def toLowerCase_def)
  with replaceWhitespaceRuns_set [of "filter keptChar t"]
  have "d = CHR ''-'' \<or> (keptChar d \<and> \<not> isWhiteSpace d)" by auto
  moreover have "keptChar (CHR ''-'')" "\<not> isWhiteSpace (CHR ''-'')"
    by (simp_all add: keptChar_def isWhiteSpace_def)
  ultimately show "plainChar c" using d(2) toLowerChar_plain by blast
qed

lemma deriveFilename_id: "\<forall>c\<in>set s. plainChar c \<Longrightarrow> deriveFilename s = s"
proof -
  assume p: "\<forall>c\<in>set s. plainChar c"
  then have "filter keptChar s = s" by (simp add: plainChar_fixed)
  moreover have "replaceWhitespaceRuns s = s"
    using p by (simp add: replaceWhitespaceRuns_id plainChar_fixed)
  moreover have "map toLowerChar s = s"
    using p by (simp add: map_idI plainChar_fixed)
  ultimately show ?thesis by (simp add: deriveFilename_def toLowerCase_def)
qed

text \<open>
  Claim C4 as stated fails at the title \<open>Caf\<close>, e-acute, \<open> Quiz!\<close>: the accented letter is
  outside the kept class and is removed, not turned into \<open>e\<close>.
\<close>

theorem C4_counterexample:
  "deriveFilename (''Caf'' @ [CHR 0xE9] @ '' Quiz!'') \<noteq> ''cafe-quiz''"
  by (simp add: evals)

text \<open>
  Claim C4, amended. Deriving the file name of a derived file name gives it back. The title
  \<open>Caf\<close>, e-acute, \<open> Quiz!\<close> derives to \<open>caf-quiz\<close>, and \<open>Cafe Quiz\<close> to \<open>cafe-quiz\<close>.
\<close>

theorem C4_deriveFilename_idempotent:
  "deriveFilename (deriveFilename t) = deriveFilename t
   \<and> deriveFilename (''Caf'' @ [CHR 0xE9] @ '' Quiz!'') = ''caf-quiz''
   \<and> deriveFilename ''Cafe Quiz'' = ''cafe-quiz''"
proof (intro conjI)
  show "deriveFilename (deriveFilename t) = deriveFilename t"
    by (rule deriveFilename_id) (simp add: deriveFilename_plain)
  show "deriveFilename (''Caf'' @ [CHR 0xE9] @ '' Quiz!'') = ''caf-quiz''"
    by (simp add: evals)
  show "deriveFilename ''Cafe Quiz'' = ''cafe-quiz''"
    by (simp add: evals)
qed

theorem C4_witness:
  "deriveFilename (deriveFilename ''  My Quiz -- 2024!  '') = ''-my-quiz----2024-''"
  using C4_deriveFilename_idempotent [of "''  My Quiz -- 2024!  ''"] by (simp add: evals)

section \<open>A title that leaves no file name\<close>

lemma acceptedE: "accepted r \<Longrightarrow> \<exists>x. r = Inr x"
  by (cases r) (auto simp: accepted_def)

lemma accepting_getRef: "accepting remote \<Longrightarrow> \<exists>x. getRef remote owner repo ref = Inr x"
  by (simp add: accepting_def acceptedE)

lemma accepting_getCommit: "accepting remote \<Longrightarrow> \<exists>x. getCommit remote owner repo sha = Inr x"
  by (simp add: accepting_def acceptedE)

lemma accepting_createBlob: "accepting remote \<Longrightarrow> \<exists>x. createBlob remote owner repo c = Inr x"
  by (simp add: accepting_def acceptedE)

lemma accepting_createTree:
  "accepting remote \<Longrightarrow> \<exists>x. createTree remote owner repo base entries = Inr x"
  by (simp add: accepting_def acceptedE)

lemma accepting_createCommit:
  "accepting remote \<Longrightarrow> \<exists>x. createCommit remote owner repo msg tree parents = Inr x"
  by (simp add: accepting_def acceptedE)

lemma accepting_updateRef: "accepting remote \<Longrightarrow> \<exists>x. updateRef remote owner repo ref sha = Inr x"
  using acceptedE [of "updateRef remote owner repo ref sha"] by (simp add: accepting_def)

lemma accepting_getContent:
  "accepting remote \<Longrightarrow> getContent remote owner repo path ref \<noteq> Inr None"
  by (simp add: accepting_def)

lemma publish_accepting:
  assumes "accepting remote"
  shows "\<exists>sha. snd (publish remote owner repo branch quizData quizTitle) =
      Inr \<lparr>quizPath = quizPathOf quizTitle, commitSha = sha,
           quizUrl = ''/data/quizzes/'' @ deriveFilename quizTitle @ ''.json''\<rparr>"
proof -
  let ?ref = "''heads/'' @ branch"
  from assms obtain c where c: "getRef remote owner repo ?ref = Inr c"
    using accepting_getRef by blast
  from assms obtain t where t: "getCommit remote owner repo c = Inr t"
    using accepting_getCommit by blast
  from assms have "getContent remote owner repo ''public/data/quiz-index.json'' branch \<noteq> Inr None"
    by (rule accepting_getContent)
  then obtain quizzes where i: "snd (loadIndex remote owner repo branch) = Inr (Some quizzes)"
    by (cases "getContent remote owner repo ''public/data/quiz-index.json'' branch")
       (auto simp: loadIndex_def)
  let ?new = "updateIndex quizzes quizData quizTitle"
  from assms obtain qb where qb: "createBlob remote owner repo (QuizJson quizData) = Inr qb"
    using accepting_createBlob by blast
  from assms obtain ib where ib: "createBlob remote owner repo (IndexJson ?new) = Inr ib"
    using accepting_createBlob by blast
  let ?entries = "[(quizPathOf quizTitle, qb), (''public/data/quiz-index.json'', ib)]"
  from assms obtain nt where nt: "createTree remote owner repo t ?entries = Inr nt"
    using accepting_createTree by blast
  from assms obtain nc where nc:
    "createCommit remote owner repo (''Add quiz: '' @ quizTitle) nt [c] = Inr nc"
    using accepting_createCommit by blast
  from assms obtain u where u: "updateRef remote owner repo ?ref nc = Inr u"
    using accepting_updateRef by blast
  from i have i': "loadIndex remote owner repo branch = ([GetContent owner repo ''public/data/quiz-index.json'' branch], Inr (Some quizzes))"
    by (simp add: loadIndex_def)
  show ?thesis
    by (simp add: publish_def andThen_def remoteCall_def createBlobs_def c t i' qb ib nt nc u
        del: append.simps)
qed

text \<open>
  Claim C9. A title without any ASCII letter, digit, white space or hyphen derives to the
  empty file name: the target path is \<open>public/data/quizzes/.json\<close> and the file of the index
  entry \<open>/data/quizzes/.json\<close>. Nothing rejects it: with owner and repository configured
  and a store that fulfils every request, the publish returns that path.
\<close>

theorem C9_empty_filename:
  assumes "\<forall>c\<in>set quizTitle. \<not> keptChar c"
  shows "deriveFilename quizTitle = []
    \<and> quizPathOf quizTitle = ''public/data/quizzes/.json''
    \<and> file' (newEntryOf quizData quizTitle) = ''/data/quizzes/.json''
    \<and> (truthyStr (repoOwner env) \<and> truthyStr (repoName env) \<and> accepting remote \<longrightarrow>
         (\<exists>sha. snd (saveQuizToRepo env remote quizData quizTitle) =
            Inr \<lparr>quizPath = ''public/data/quizzes/.json'', commitSha = sha,
                 quizUrl = ''/data/quizzes/.json''\<rparr>))"
proof -
  from assms have "filter keptChar quizTitle = []" by (simp add: filter_empty_conv)
  then have e: "deriveFilename quizTitle = []" by (simp add: deriveFilename_def toLowerCase_def)
  then have p: "quizPathOf quizTitle = ''public/data/quizzes/.json''" by (simp add: quizPathOf_def)
  have "\<exists>sha. snd (saveQuizToRepo env remote quizData quizTitle) =
            Inr \<lparr>quizPath = ''public/data/quizzes/.json'', commitSha = sha,
                 quizUrl = ''/data/quizzes/.json''\<rparr>"
    if cfg: "truthyStr (repoOwner env)" "truthyStr (repoName env)" and acc: "accepting remote"
  proof -
    from cfg obtain owner repo where o: "repoOwner env = Some owner" "repoName env = Some repo"
      by (cases "repoOwner env"; cases "repoName env") auto
    from publish_accepting [OF acc, of owner repo "orDefault (GITHUB_BRANCH env) ''main''" quizData quizTitle]
    show ?thesis using cfg by (simp add: saveQuizToRepo_def o e p)
  qed
  with e p show ?thesis by (simp add: newEntryOf_def)
qed

lemma accepting_okRemote: "accepting okRemote"
  by (simp add: accepting_def okRemote_def accepted_def split: content.splits)


theorem C9_witness:
  "list_all (\<lambda>c. \<not> keptChar c) ''???''
   \<and> deriveFilename ''???'' = []
   \<and> (\<exists>sha. snd (saveQuizToRepo someEnv okRemote (convertExcelToQuiz [] ''???'' [] []) ''???'') =
            Inr \<lparr>quizPath = ''public/data/quizzes/.json'', commitSha = sha,
                 quizUrl = ''/data/quizzes/.json''\<rparr>)"
proof -
  have h: "\<forall>c\<in>set ''???''. \<not> keptChar c"
    by (simp add: keptChar_def isWhiteSpace_def)
  have cfg: "truthyStr (repoOwner someEnv) \<and> truthyStr (repoName someEnv)"
    by (simp add: repoOwner_def repoName_def orElse_def someEnv_def)
  from h have h': "list_all (\<lambda>c. \<not> keptChar c) ''???''"
    by (simp only: list_all_iff)
  from C9_empty_filename [OF h, of "convertExcelToQuiz [] ''???'' [] []" someEnv okRemote]
    cfg accepting_okRemote h'
  show ?thesis by blast
qed

section \<open>The index entry\<close>

lemma findIndexFrom_none: "\<forall>x\<in>set xs. \<not> P x \<Longrightarrow> findIndexFrom P xs k = - 1"
  by (induction xs arbitrary: k) auto

lemma findIndexFrom_some:
  "\<exists>x\<in>set xs. P x \<Longrightarrow>
   \<exists>i<length xs. findIndexFrom P xs k = int (k + i) \<and> P (xs ! i) \<and> (\<forall>j<i. \<not> P (xs ! j))"
proof (induction xs arbitrary: k)
  case Nil
  then show ?case by simp
next
  case (Cons x xs)
  show ?case
  proof (cases "P x")
    case True
    then have "findIndexFrom P (x # xs) k = int (k + 0) \<and> P ((x # xs) ! 0) \<and> (\<forall>j<0. \<not> P ((x # xs) ! j))"
      by simp
    then show ?thesis by blast
  next
    case False
    with Cons.prems have "\<exists>y\<in>set xs. P y" by auto
    from Cons.IH [OF this, of "Suc k"] obtain i where i: "i < length xs"
      "findIndexFrom P xs (Suc k) = int (Suc k + i)" "P (xs ! i)" "\<forall>j<i. \<not> P (xs ! j)"
      by blast
    have "\<forall>j<Suc i. \<not> P ((x # xs) ! j)"
      using False i(4) by (auto simp: less_Suc_eq_0_disj)
    with i False have "Suc i < length (x # xs) \<and> findIndexFrom P (x # xs) k = int (k + Suc i)
       \<and> P ((x # xs) ! Suc i) \<and> (\<forall>j<Suc i. \<not> P ((x # xs) ! j))"
      by simp
    then show ?thesis by blast
  qed
qed

text \<open>
  Claim C5. When some entry of the fetched index has the file of the new entry, the updated
  index has the same length and is the old one with the new entry written over the first
  such entry, at its position; when no entry has that file, the new entry is appended.
\<close>

theorem C5_index_upsert:
  "((\<exists>q\<in>set quizzes. file' q = ''/data/quizzes/'' @ deriveFilename quizTitle @ ''.json'') \<longrightarrow>
      length (updateIndex quizzes quizData quizTitle) = length quizzes
      \<and> (\<exists>i<length quizzes.
            file' (quizzes ! i) = ''/data/quizzes/'' @ deriveFilename quizTitle @ ''.json''
            \<and> (\<forall>j<i. file' (quizzes ! j) \<noteq> ''/data/quizzes/'' @ deriveFilename quizTitle @ ''.json'')
            \<and> updateIndex quizzes quizData quizTitle = quizzes[i := newEntryOf quizData quizTitle]))
   \<and> ((\<forall>q\<in>set quizzes. file' q \<noteq> ''/data/quizzes/'' @ deriveFilename quizTitle @ ''.json'') \<longrightarrow>
      updateIndex quizzes quizData quizTitle = quizzes @ [newEntryOf quizData quizTitle])"
proof (intro conjI impI)
  let ?P = "\<lambda>q. file' q = ''/data/quizzes/'' @ deriveFilename quizTitle @ ''.json''"
  assume ex: "\<exists>q\<in>set quizzes. ?P q"
  from findIndexFrom_some [of quizzes ?P 0, OF ex] obtain i where i: "i < length quizzes"
    "findIndex ?P quizzes = int i" "?P (quizzes ! i)" "\<forall>j<i. \<not> ?P (quizzes ! j)"
    unfolding findIndex_def by auto
  then have u: "updateIndex quizzes quizData quizTitle = quizzes[i := newEntryOf quizData quizTitle]"
    by (simp add: updateIndex_def Let_def del: append.simps)
  then show "length (updateIndex quizzes quizData quizTitle) = length quizzes" by simp
  from i u show "\<exists>i<length quizzes. ?P (quizzes ! i) \<and> (\<forall>j<i. \<not> ?P (quizzes ! j))
      \<and> updateIndex quizzes quizData quizTitle = quizzes[i := newEntryOf quizData quizTitle]"
    by blast
next
  let ?P = "\<lambda>q. file' q = ''/data/quizzes/'' @ deriveFilename quizTitle @ ''.json''"
  assume "\<forall>q\<in>set quizzes. \<not> ?P q"
  then have "findIndex ?P quizzes = - 1"
    unfolding findIndex_def by (rule findIndexFrom_none)
  then show "updateIndex quizzes quizData quizTitle = quizzes @ [newEntryOf quizData quizTitle]"
    by (simp add: updateIndex_def Let_def del: append.simps)
qed

theorem C5_witness:
  "(\<exists>q\<in>set someIndex. file' q = ''/data/quizzes/'' @ deriveFilename ''Demo'' @ ''.json'')
   \<and> length (updateIndex someIndex (convertExcelToQuiz someRows ''Demo'' [] []) ''Demo'') = 3
   \<and> list_all (\<lambda>q. file' q \<noteq> ''/data/quizzes/'' @ deriveFilename ''Demo'' @ ''.json'')
         (take 1 someIndex)
   \<and> updateIndex (take 1 someIndex) (convertExcelToQuiz someRows ''Demo'' [] []) ''Demo''
       = take 1 someIndex @ [newEntryOf (convertExcelToQuiz someRows ''Demo'' [] []) ''Demo'']"
proof -
  let ?q = "convertExcelToQuiz someRows ''Demo'' [] []"
  have f: "deriveFilename ''Demo'' = ''demo''"
    by (simp add: evals)
  have present: "\<exists>q\<in>set someIndex. file' q = ''/data/quizzes/'' @ deriveFilename ''Demo'' @ ''.json''"
    by (simp add: f someIndex_def)
  have absent: "\<forall>q\<in>set (take 1 someIndex).
      file' q \<noteq> ''/data/quizzes/'' @ deriveFilename ''Demo'' @ ''.json''"
    by (simp add: f someIndex_def)
  from C5_index_upsert [of someIndex "''Demo''" ?q] present
  have "length (updateIndex someIndex ?q ''Demo'') = length someIndex"
    by blast
  then have 1: "length (updateIndex someIndex ?q ''Demo'') = 3"
    by (simp add: someIndex_def)
  from C5_index_upsert [of "take 1 someIndex" "''Demo''" ?q] absent
  have 2: "updateIndex (take 1 someIndex) ?q ''Demo'' = take 1 someIndex @ [newEntryOf ?q ''Demo'']"
    by blast
  from absent have absent': "list_all
      (\<lambda>q. file' q \<noteq> ''/data/quizzes/'' @ deriveFilename ''Demo'' @ ''.json'') (take 1 someIndex)"
    by (simp only: list_all_iff)
  from present 1 absent' 2 show ?thesis by blast
qed

section \<open>The handler and the publish\<close>

text \<open>
  Claim C7. For a POST request with a file that the spreadsheet reader accepts, and with the
  token configured: when \<open>saveQuizToRepo\<close> ends in an error, whatever the step, the
  response is 200 with \<open>success: true\<close>, the converted document, \<open>saved: false\<close> and
  \<open>quizPath: null\<close>.
\<close>

theorem C7_publish_failure_still_200:
  assumes "req_method req = ''POST''"
    and "multipart req = Inr parsed"
    and "firstOf (files_file parsed) = Some uploadedFile"
    and "readRows (filepath uploadedFile) = Inr data"
    and "truthyStr (GITHUB_TOKEN env)"
    and "snd (saveQuizToRepo env remote
            (convertExcelToQuiz data
               (quizTitleOf (fields_title parsed) (originalFilename uploadedFile)) sourceDay day)
            (quizTitleOf (fields_title parsed) (originalFilename uploadedFile))) = Inl saveError"
  shows "snd (handler req env readRows remote sourceDay day) =
     Response 200 (UploadBody
       \<lparr>success = True,
        quiz = convertExcelToQuiz data
                 (quizTitleOf (fields_title parsed) (originalFilename uploadedFile)) sourceDay day,
        saved = False, quizPath' = None,
        message = ''Quiz parsed successfully (download to save manually)''\<rparr>)"
proof -
  let ?t = "quizTitleOf (fields_title parsed) (originalFilename uploadedFile)"
  obtain calls where "saveQuizToRepo env remote (convertExcelToQuiz data ?t sourceDay day) ?t = (calls, Inl saveError)"
    using assms(6) by (cases "saveQuizToRepo env remote (convertExcelToQuiz data ?t sourceDay day) ?t") auto
  with assms(1-5) show ?thesis
    by (simp add: handler_def Let_def)
qed

lemma deriveFilename_Demo: "deriveFilename ''Demo'' = ''demo''"
  by (simp add: evals)

lemma someEnv_configured:
  "repoOwner someEnv = Some ''pravinva''" "repoName someEnv = Some ''buzzerquiz''"
  "truthyStr (GITHUB_TOKEN someEnv)" "orDefault (GITHUB_BRANCH someEnv) ''main'' = ''main''"
  by (simp_all add: repoOwner_def repoName_def orElse_def orDefault_def someEnv_def)

lemma someRequest_parts:
  "req_method someRequest = ''POST''"
  "multipart someRequest =
     Inr \<lparr>fields_title = Some [''Demo''],
          files_file = Some [\<lparr>filepath = ''/tmp/upload'', originalFilename = Some ''demo.xlsx''\<rparr>]\<rparr>"
  by (simp_all add: someRequest_def)

lemma quizTitleOf_Demo: "quizTitleOf (Some [''Demo'']) (Some ''demo.xlsx'') = ''Demo''"
  by (simp add: quizTitleOf_def orElse_def orDefault_def)

lemma saveQuizToRepo_conflict:
  "snd (saveQuizToRepo someEnv conflictRemote quizData ''Demo'') = Inl (Error ''Conflict'')"
  by (simp add: saveQuizToRepo_def someEnv_configured publish_def andThen_def remoteCall_def
      loadIndex_def createBlobs_def conflictRemote_def okRemote_def del: append.simps)

theorem C7_witness:
  "snd (saveQuizToRepo someEnv conflictRemote
          (convertExcelToQuiz someRows ''Demo'' ''2026-11-03'' ''2026-11-03'') ''Demo'')
     = Inl (Error ''Conflict'')
   \<and> snd (handler someRequest someEnv (\<lambda>path. Inr someRows) conflictRemote
            ''2026-11-03'' ''2026-11-03'') =
     Response 200 (UploadBody
       \<lparr>success = True,
        quiz = convertExcelToQuiz someRows ''Demo'' ''2026-11-03'' ''2026-11-03'',
        saved = False, quizPath' = None,
        message = ''Quiz parsed successfully (download to save manually)''\<rparr>)"
proof -
  let ?parsed = "\<lparr>fields_title = Some [''Demo''],
          files_file = Some [\<lparr>filepath = ''/tmp/upload'', originalFilename = Some ''demo.xlsx''\<rparr>]\<rparr>"
  let ?file = "\<lparr>filepath = ''/tmp/upload'', originalFilename = Some ''demo.xlsx''\<rparr>"
  have a: "firstOf (files_file ?parsed) = Some ?file" by simp
  have b: "(\<lambda>path. Inr someRows :: error + row list) (filepath ?file) = Inr someRows" by simp
  have t: "quizTitleOf (fields_title ?parsed) (originalFilename ?file) = ''Demo''"
    by (simp add: quizTitleOf_Demo)
  have c: "snd (saveQuizToRepo someEnv conflictRemote
            (convertExcelToQuiz someRows
               (quizTitleOf (fields_title ?parsed) (originalFilename ?file))
               ''2026-11-03'' ''2026-11-03'')
            (quizTitleOf (fields_title ?parsed) (originalFilename ?file))) = Inl (Error ''Conflict'')"
    unfolding t by (rule saveQuizToRepo_conflict)
  from C7_publish_failure_still_200
    [OF someRequest_parts(1) someRequest_parts(2) a b someEnv_configured(3) c]
  show ?thesis unfolding t using saveQuizToRepo_conflict by simp
qed

text \<open>
  Claim C8. Without an owner or without a repository name, \<open>saveQuizToRepo\<close> ends in the
  configuration error and has made no remote call. Without a token, the handler of a POST
  request with a readable file makes no remote call and answers 200 with the converted
  document, \<open>saved: false\<close> and \<open>quizPath: null\<close>.
\<close>

theorem C8_configuration_absent:
  "(\<not> truthyStr (repoOwner env) \<or> \<not> truthyStr (repoName env) \<longrightarrow>
      saveQuizToRepo env remote quizData quizTitle = ([], Inl notConfigured))
   \<and> (req_method req = ''POST'' \<and> multipart req = Inr parsed
       \<and> firstOf (files_file parsed) = Some uploadedFile
       \<and> readRows (filepath uploadedFile) = Inr data
       \<and> \<not> truthyStr (GITHUB_TOKEN env) \<longrightarrow>
      handler req env readRows remote sourceDay day =
        ([], Response 200 (UploadBody
          \<lparr>success = True,
           quiz = convertExcelToQuiz data
                    (quizTitleOf (fields_title parsed) (originalFilename uploadedFile)) sourceDay day,
           saved = False, quizPath' = None,
           message = ''Quiz parsed successfully (download to save manually)''\<rparr>)))"
  by (auto simp: saveQuizToRepo_def handler_def Let_def)

theorem C8_witness:
  "\<not> truthyStr (repoOwner (someEnv\<lparr>VERCEL_GIT_REPO_OWNER := None\<rparr>))
   \<and> saveQuizToRepo (someEnv\<lparr>VERCEL_GIT_REPO_OWNER := None\<rparr>) okRemote
         (convertExcelToQuiz someRows ''Demo'' [] []) ''Demo'' = ([], Inl notConfigured)
   \<and> \<not> truthyStr (GITHUB_TOKEN (someEnv\<lparr>GITHUB_TOKEN := None\<rparr>))
   \<and> handler someRequest (someEnv\<lparr>GITHUB_TOKEN := None\<rparr>) (\<lambda>path. Inr someRows) okRemote
        ''2026-11-03'' ''2026-11-03'' =
        ([], Response 200 (UploadBody
          \<lparr>success = True,
           quiz = convertExcelToQuiz someRows ''Demo'' ''2026-11-03'' ''2026-11-03'',
           saved = False, quizPath' = None,
           message = ''Quiz parsed successfully (download to save manually)''\<rparr>))"
proof -
  let ?parsed = "\<lparr>fields_title = Some [''Demo''],
          files_file = Some [\<lparr>filepath = ''/tmp/upload'', originalFilename = Some ''demo.xlsx''\<rparr>]\<rparr>"
  let ?file = "\<lparr>filepath = ''/tmp/upload'', originalFilename = Some ''demo.xlsx''\<rparr>"
  let ?noOwner = "someEnv\<lparr>VERCEL_GIT_REPO_OWNER := None\<rparr>"
  let ?noToken = "someEnv\<lparr>GITHUB_TOKEN := None\<rparr>"
  have o: "\<not> truthyStr (repoOwner ?noOwner)"
    by (simp add: repoOwner_def orElse_def someEnv_def)
  have k: "\<not> truthyStr (GITHUB_TOKEN ?noToken)"
    by simp
  have a: "firstOf (files_file ?parsed) = Some ?file" by simp
  have b: "(\<lambda>path. Inr someRows :: error + row list) (filepath ?file) = Inr someRows" by simp
  have t: "quizTitleOf (fields_title ?parsed) (originalFilename ?file) = ''Demo''"
    by (simp add: quizTitleOf_Demo)
  from C8_configuration_absent
    [where env = ?noOwner and remote = okRemote
       and quizData = "convertExcelToQuiz someRows ''Demo'' [] []" and quizTitle = "''Demo''"] o
  have 1: "saveQuizToRepo ?noOwner okRemote (convertExcelToQuiz someRows ''Demo'' [] []) ''Demo''
      = ([], Inl notConfigured)"
    by blast
  from C8_configuration_absent
    [where req = someRequest and parsed = ?parsed and uploadedFile = ?file
       and readRows = "\<lambda>path. Inr someRows" and data = someRows and env = ?noToken
       and remote = okRemote and sourceDay = "''2026-11-03''" and day = "''2026-11-03''"]
    someRequest_parts a b k
  have 2: "handler someRequest ?noToken (\<lambda>path. Inr someRows) okRemote ''2026-11-03'' ''2026-11-03'' =
        ([], Response 200 (UploadBody
          \<lparr>success = True,
           quiz = convertExcelToQuiz someRows
                    (quizTitleOf (fields_title ?parsed) (originalFilename ?file))
                    ''2026-11-03'' ''2026-11-03'',
           saved = False, quizPath' = None,
           message = ''Quiz parsed successfully (download to save manually)''\<rparr>))"
    by blast
  from o 1 k 2 show ?thesis unfolding t by blast
qed

section \<open>The default title\<close>

lemma canonicalize_extensions:
  "map canonicalize ''.xlsx'' = ''.XLSX''" "map canonicalize ''.xls'' = ''.XLS''"
  "map canonicalize ''.csv'' = ''.CSV''"
  by (simp_all add: canonicalize_def char_of_eq_iff)

lemma extensionHere_canon:
  "extensionHere s \<longleftrightarrow> (\<exists>ext\<in>set extensions. map canonicalize s = map canonicalize ext)"
  by (simp add: extensionHere_def extensions_def canonicalize_extensions del: list.map)

lemma extensionHere_iff:
  "extensionHere s \<longleftrightarrow> (\<exists>ext\<in>set extensions. length s = length ext \<and> endsWithCI ext s)"
proof -
  have "map canonicalize s = map canonicalize ext \<longleftrightarrow> length s = length ext \<and> endsWithCI ext s"
    for ext
    using map_eq_imp_length_eq [of canonicalize s canonicalize ext]
    by (auto simp: endsWithCI_def)
  then show ?thesis unfolding extensionHere_canon by simp
qed

lemma extensionHere_no_longer:
  assumes "extensionHere s" and "ext \<in> set extensions" and "endsWithCI ext s"
  shows "length ext = length s"
proof -
  from assms(1) obtain e where e: "e \<in> set extensions" "map canonicalize s = map canonicalize e"
    unfolding extensionHere_canon by blast
  then have len: "length s = length e"
    by (auto dest: map_eq_imp_length_eq)
  from assms(3) have "drop (length s - length ext) (map canonicalize s) = map canonicalize ext"
    by (simp add: endsWithCI_def drop_map)
  with e(2) len have "drop (length e - length ext) (map canonicalize e) = map canonicalize ext"
    by simp
  then have d: "drop (length e - length ext) (map canonicalize e) = map canonicalize ext" .
  from e(1) have ce: "e = ''.xlsx'' \<or> e = ''.xls'' \<or> e = ''.csv''"
    by (simp add: extensions_def)
  from assms(2) have cx: "ext = ''.xlsx'' \<or> ext = ''.xls'' \<or> ext = ''.csv''"
    by (simp add: extensions_def)
  have "length ext = length e"
    using ce cx d
    by (elim disjE) (simp_all add: canonicalize_extensions del: list.map)
  with len show ?thesis by simp
qed

lemma endsWithCI_Cons:
  "length ext \<le> length cs \<Longrightarrow> endsWithCI ext (c # cs) = endsWithCI ext cs"
  by (simp add: endsWithCI_def Suc_diff_le)

lemma stripExtension_ext:
  "ext \<in> set extensions \<Longrightarrow> endsWithCI ext f \<Longrightarrow>
   stripExtension f = take (length f - length ext) f"
proof (induction f)
  case Nil
  then show ?case by simp
next
  case (Cons c cs)
  show ?case
  proof (cases "extensionHere (c # cs)")
    case True
    from True Cons.prems have "length ext = length (c # cs)"
      by (rule extensionHere_no_longer)
    then have "take (length (c # cs) - length ext) (c # cs) = []"
      by simp
    moreover from True have "stripExtension (c # cs) = []"
      by simp
    ultimately show ?thesis by simp
  next
    case False
    have "length ext \<noteq> length (c # cs)"
    proof
      assume "length ext = length (c # cs)"
      with Cons.prems have "\<exists>e\<in>set extensions. length (c # cs) = length e \<and> endsWithCI e (c # cs)"
        by metis
      with False show False
        unfolding extensionHere_iff by blast
    qed
    moreover from Cons.prems(2) have "length ext \<le> length (c # cs)"
      unfolding endsWithCI_def by (rule conjunct1)
    ultimately have le: "length ext \<le> length cs"
      by simp
    with Cons.prems(2) have "endsWithCI ext cs"
      by (simp only: endsWithCI_Cons)
    with Cons.IH Cons.prems(1) have "stripExtension cs = take (length cs - length ext) cs"
      by blast
    moreover have "length (c # cs) - length ext = Suc (length cs - length ext)"
      using le by simp
    moreover from False have "stripExtension (c # cs) = c # stripExtension cs"
      by simp
    ultimately show ?thesis by (simp only: take_Suc_Cons)
  qed
qed

lemma stripExtension_none:
  "\<forall>ext\<in>set extensions. \<not> endsWithCI ext f \<Longrightarrow> stripExtension f = f"
proof (induction f)
  case Nil
  then show ?case by simp
next
  case (Cons c cs)
  have "\<not> extensionHere (c # cs)"
    using Cons.prems extensionHere_iff by blast
  moreover have "\<forall>ext\<in>set extensions. \<not> endsWithCI ext cs"
  proof
    fix ext assume e: "ext \<in> set extensions"
    show "\<not> endsWithCI ext cs"
    proof
      assume a: "endsWithCI ext cs"
      then have "length ext \<le> length cs"
        unfolding endsWithCI_def by (rule conjunct1)
      with a have "endsWithCI ext (c # cs)"
        by (simp only: endsWithCI_Cons)
      with Cons.prems e show False by blast
    qed
  qed
  ultimately show ?case using Cons.IH by simp
qed

text \<open>
  Claim C10 as stated fails at an upload named \<open>.xlsx\<close> without a title field: nothing is
  left of the name, and the title is \<open>Untitled Quiz\<close>, not the empty string.
\<close>

theorem C10_counterexample:
  "quizTitleOf None (Some ''.xlsx'') \<noteq> stripExtension ''.xlsx''
   \<and> stripExtension ''.xlsx'' = []
   \<and> quizTitleOf None (Some ''.xlsx'') = ''Untitled Quiz''"
  by (simp add: quizTitleOf_def orElse_def orDefault_def evals)

text \<open>
  Claim C10, amended. Without a title field, the title is the original file name with one
  trailing \<open>.xlsx\<close>, \<open>.xls\<close> or \<open>.csv\<close> removed (in any letter case) when something is left
  of it; it is \<open>Untitled Quiz\<close> when there is no original file name or nothing is left.
\<close>

theorem C10_default_title:
  assumes "titles = None"
  shows "quizTitleOf titles originalName =
      (case originalName of
         None \<Rightarrow> ''Untitled Quiz''
       | Some f \<Rightarrow> if stripExtension f = [] then ''Untitled Quiz'' else stripExtension f)
    \<and> (\<forall>f. \<forall>ext\<in>set extensions. endsWithCI ext f \<longrightarrow>
          stripExtension f = take (length f - length ext) f)
    \<and> (\<forall>f. (\<forall>ext\<in>set extensions. \<not> endsWithCI ext f) \<longrightarrow> stripExtension f = f)"
proof (intro conjI allI ballI impI)
  show "quizTitleOf titles originalName =
      (case originalName of
         None \<Rightarrow> ''Untitled Quiz''
       | Some f \<Rightarrow> if stripExtension f = [] then ''Untitled Quiz'' else stripExtension f)"
    using assms by (cases originalName) (simp_all add: quizTitleOf_def orElse_def orDefault_def)
next
  fix f ext assume "ext \<in> set extensions" "endsWithCI ext f"
  then show "stripExtension f = take (length f - length ext) f"
    by (rule stripExtension_ext)
next
  fix f assume "\<forall>ext\<in>set extensions. \<not> endsWithCI ext f"
  then show "stripExtension f = f"
    by (rule stripExtension_none)
qed

theorem C10_witness:
  "quizTitleOf None (Some ''Capitals.XLSX'') = ''Capitals''
   \<and> quizTitleOf None (Some ''notes.txt'') = ''notes.txt''
   \<and> quizTitleOf None None = ''Untitled Quiz''"
proof -
  have n: "(None :: string list option) = None" by simp
  have x: "''.xlsx'' \<in> set extensions" by (simp add: extensions_def)
  have e: "endsWithCI ''.xlsx'' ''Capitals.XLSX''"
    by (simp add: evals)
  have t: "\<forall>ext\<in>set extensions. \<not> endsWithCI ext ''notes.txt''"
    by (simp add: extensions_def evals)
  from C10_default_title [OF n, of "Some ''Capitals.XLSX''"] x e
  have "stripExtension ''Capitals.XLSX'' = take (length ''Capitals.XLSX'' - length ''.xlsx'') ''Capitals.XLSX''"
    by blast
  then have s1: "stripExtension ''Capitals.XLSX'' = ''Capitals''" by simp
  from C10_default_title [OF n, of "Some ''notes.txt''"] t
  have s2: "stripExtension ''notes.txt'' = ''notes.txt''" by blast
  from C10_default_title [OF n, of "Some ''Capitals.XLSX''"] s1
  have 1: "quizTitleOf None (Some ''Capitals.XLSX'') = ''Capitals''" by simp
  from C10_default_title [OF n, of "Some ''notes.txt''"] s2
  have 2: "quizTitleOf None (Some ''notes.txt'') = ''notes.txt''" by simp
  from C10_default_title [OF n, of None]
  have 3: "quizTitleOf None None = ''Untitled Quiz''" by simp
  from 1 2 3 show ?thesis by simp
qed

end
